theory Spec2Isabelle
  imports Complex_Main "HOL-Library.Sublist"
begin

section \<open>Python values and exceptions\<close>

text \<open>
  The adapters hand the agent dynamically typed data: the decoded body of an HTTP
  response, the return value of the company lookup, the result of \<^verbatim>\<open>json.loads\<close>.
  A value is one of the shapes JSON decodes to. A dict is an association list with
  string keys, read with \<open>map_of\<close>.
\<close>

datatype pyval =
    PNone
  | PBool bool
  | PInt int
  | PFloat rat
  | PStr string
  | PList "pyval list"
  | PDict "(string \<times> pyval) list"

text \<open>
  Every exception of the model derives from Python's \<^verbatim>\<open>Exception\<close>, which is what the
  handlers of the source catch. \<open>ExternalError\<close> stands for whatever an outside library
  raises (requests, googlesearch, the company lookup).
\<close>

datatype error = AttributeError | TypeError | ExternalError

text \<open>\<^verbatim>\<open>obj.get(key, default)\<close>: only a dict has the method.\<close>

fun py_get :: "pyval \<Rightarrow> string \<Rightarrow> pyval \<Rightarrow> error + pyval" where
  "py_get (PDict kvs) k dflt = Inr (case map_of kvs k of None \<Rightarrow> dflt | Some v \<Rightarrow> v)"
| "py_get _ k dflt = Inl AttributeError"

text \<open>
  \<^verbatim>\<open>for a in obj\<close>: a list yields its elements, a string its characters, a dict its
  keys; the other values are not iterable.
\<close>

fun py_iter :: "pyval \<Rightarrow> error + pyval list" where
  "py_iter (PList xs) = Inr xs"
| "py_iter (PStr s) = Inr (map (\<lambda>c. PStr [c]) s)"
| "py_iter (PDict kvs) = Inr (map (\<lambda>kv. PStr (fst kv)) kvs)"
| "py_iter _ = Inl TypeError"

text \<open>
  \<^verbatim>\<open>str.lower\<close> is a builtin of Python with the case mapping of all of Unicode (it
  maps the Kelvin sign U+212A to the letter k, for one). It is a parameter of the model,
  the field \<open>str_lower\<close> of the collaborators below, and every general fact holds for
  every lowering function. \<open>ascii_lower\<close> is what \<^verbatim>\<open>str.lower\<close> does on a string of
  ASCII characters: the letters A to Z become a to z and every other character is kept.
  It stands for \<^verbatim>\<open>str.lower\<close> only in the sample snapshot, whose titles are ASCII.
\<close>

definition ascii_lower_char :: "char \<Rightarrow> char" where
  "ascii_lower_char c =
     (let n = (of_char c :: nat) in if 65 \<le> n \<and> n \<le> 90 then char_of (n + 32) else c)"

definition ascii_lower :: "string \<Rightarrow> string" where
  "ascii_lower s = map ascii_lower_char s"

text \<open>Evaluating a list of fallible computations left to right, stopping at the first raise.\<close>

fun sequence :: "(error + 'a) list \<Rightarrow> error + 'a list" where
  "sequence [] = Inr []"
| "sequence (x # xs) =
     (case x of
        Inl e \<Rightarrow> Inl e
      | Inr v \<Rightarrow> (case sequence xs of Inl e \<Rightarrow> Inl e | Inr vs \<Rightarrow> Inr (v # vs)))"

section \<open>The sentiment scorer\<close>

text \<open>
  Lines 228 to 233 of \<^verbatim>\<open>investment_agent.py\<close>, in \<^verbatim>\<open>get_headline_sentiment\<close>:
  \<^verbatim>\<open>
  pos = sum(any(word in t.lower() for word in positive_words) for t in all_titles)
  neg = sum(any(word in t.lower() for word in negative_words) for t in all_titles)
  total = len(all_titles)
  sentiment_score = (pos - neg) / total if total > 0 else 0
  \<close>
  \<^verbatim>\<open>word in text\<close> on strings is the contiguous substring test, \<open>sublist\<close>;
  \<open>lw\<close> below is the lowering function, \<^verbatim>\<open>str.lower\<close> in the source. The
  counts are Python integers. The quotient is kept as the exact rational; Python stores
  its correctly rounded double, which has the same sign, the same bounds and, for title
  lists of any realistic length, the same order and ties.
\<close>

definition positive_words :: "string list" where
  "positive_words = [''surge'', ''rise'', ''gain'', ''up'', ''positive'', ''growth'',
     ''profit'', ''success'', ''beat'', ''record'', ''strong'']"

definition negative_words :: "string list" where
  "negative_words = [''fall'', ''drop'', ''decline'', ''down'', ''negative'', ''loss'',
     ''crash'', ''risk'', ''miss'', ''weak'', ''lawsuit'']"

definition any_word_in :: "string list \<Rightarrow> string \<Rightarrow> bool" where
  "any_word_in ws text = list_ex (\<lambda>word. sublist word text) ws"

definition count_hits :: "string list \<Rightarrow> string list \<Rightarrow> int" where
  "count_hits ws lowered = sum_list (map (\<lambda>t. of_bool (any_word_in ws t)) lowered)"

definition sentiment_score_of :: "int \<Rightarrow> int \<Rightarrow> int \<Rightarrow> rat" where
  "sentiment_score_of pos neg n =
     (if n > 0 then of_int (pos - neg) / of_int n else 0)"

text \<open>
  The scorer on a list of text items: the counts and the score, as the source computes
  them from \<^verbatim>\<open>all_titles\<close> once every title is known to be a string.
\<close>

record score_result =
  positive_count :: int
  negative_count :: int
  total_count :: int
  score :: rat

definition score_items :: "(string \<Rightarrow> string) \<Rightarrow> string list \<Rightarrow> score_result" where
  "score_items lw items =
     (let lowered = map lw items;
          pos = count_hits positive_words lowered;
          neg = count_hits negative_words lowered;
          n = int (length items)
      in \<lparr>positive_count = pos, negative_count = neg, total_count = n,
          score = sentiment_score_of pos neg n\<rparr>)"

section \<open>The collaborators\<close>

text \<open>
  What lies outside the repository is a parameter of the model: the HTTP call of the news
  adapter (\<^verbatim>\<open>requests.get\<close>, \<^verbatim>\<open>raise_for_status\<close> and \<^verbatim>\<open>response.json\<close>
  together), the \<^verbatim>\<open>search\<close> generator of the googlesearch package, the company lookup
  \<^verbatim>\<open>YahooFinanceTool.get_company_info\<close>, \<^verbatim>\<open>json.loads\<close> (\<open>None\<close> when it
  raises) and \<^verbatim>\<open>str.lower\<close>. A run is evaluated against one snapshot of them: the
  same request gets the same answer.
\<close>

datatype http_outcome = HttpRaises | HttpJson pyval

record search_hit =
  hit_url :: string
  hit_title :: "string option"
  hit_description :: "string option"

datatype search_outcome = SearchRaises | SearchYields "search_hit list"

datatype lookup_outcome = LookupRaises | LookupReturns pyval

record world =
  news_enabled :: bool
  http_get :: "string \<Rightarrow> int \<Rightarrow> http_outcome"
  search :: "string \<Rightarrow> int \<Rightarrow> bool \<Rightarrow> search_outcome"
  get_company_info :: "string \<Rightarrow> lookup_outcome"
  json_loads :: "string \<Rightarrow> pyval option"
  str_lower :: "string \<Rightarrow> string"

section \<open>The news adapter\<close>

text \<open>
  \<^verbatim>\<open>NewsAPITool.get_trending_news\<close>: a disabled tool returns the empty list; every
  exception of the request, and of \<^verbatim>\<open>data.get\<close> on a body that is not an object, is
  caught inside the adapter and turned into the empty list.
\<close>

definition get_trending_news :: "world \<Rightarrow> string \<Rightarrow> int \<Rightarrow> pyval" where
  "get_trending_news w query days_back =
     (if \<not> news_enabled w then PList []
      else
        (case http_get w query days_back of
           HttpRaises \<Rightarrow> PList []
         | HttpJson data \<Rightarrow>
             (case py_get data ''articles'' (PList []) of
                Inl e \<Rightarrow> PList []
              | Inr articles \<Rightarrow> articles)))"

section \<open>The search adapter\<close>

text \<open>
  \<^verbatim>\<open>GoogleSearchTool.google_search\<close> has no handler: an exception of the search
  generator leaves the function. In advanced mode each hit keeps its title and
  description; otherwise only the URL is kept.
\<close>

record GoogleSearchResult =
  url :: string
  title :: "string option"
  description :: "string option"

record GoogleSearchResults =
  result_count :: int
  results :: "GoogleSearchResult list"

definition google_search ::
  "world \<Rightarrow> string \<Rightarrow> int \<Rightarrow> bool \<Rightarrow> error + GoogleSearchResults" where
  "google_search w query max_results advanced =
     (case search w query max_results advanced of
        SearchRaises \<Rightarrow> Inl ExternalError
      | SearchYields hits \<Rightarrow>
          (let search_results =
                 map (\<lambda>result.
                        if advanced
                        then \<lparr>url = hit_url result, title = hit_title result,
                              description = hit_description result\<rparr>
                        else \<lparr>url = hit_url result, title = None, description = None\<rparr>)
                     hits
           in Inr \<lparr>result_count = int (length search_results),
                   results = search_results\<rparr>))"

section \<open>The headline collector and \<^verbatim>\<open>get_headline_sentiment\<close>\<close>

text \<open>
  Lines 220 and 221: the news titles. Iterating the adapter's return value and calling
  \<^verbatim>\<open>a.get('title', '')\<close> on each element can raise, and nothing in
  \<^verbatim>\<open>get_headline_sentiment\<close> catches it.
\<close>

definition news_titles :: "world \<Rightarrow> string \<Rightarrow> error + pyval list" where
  "news_titles w symbol =
     (case py_iter (get_trending_news w symbol 5) of
        Inl e \<Rightarrow> Inl e
      | Inr news_articles \<Rightarrow> sequence (map (\<lambda>a. py_get a ''title'' (PStr [])) news_articles))"

text \<open>Lines 223 and 224: the search titles, \<^verbatim>\<open>r.title or ''\<close> for each result.\<close>

definition title_or_empty :: "GoogleSearchResult \<Rightarrow> pyval" where
  "title_or_empty r = PStr (case title r of None \<Rightarrow> [] | Some t \<Rightarrow> t)"

definition google_titles :: "world \<Rightarrow> string \<Rightarrow> error + pyval list" where
  "google_titles w symbol =
     (case google_search w (symbol @ '' stock news'') 5 True of
        Inl e \<Rightarrow> Inl e
      | Inr google_results \<Rightarrow> Inr (map title_or_empty (results google_results)))"

text \<open>Line 226: \<^verbatim>\<open>all_titles = news_titles + google_titles\<close>, the news call first.\<close>

definition all_titles :: "world \<Rightarrow> string \<Rightarrow> error + pyval list" where
  "all_titles w symbol =
     (case news_titles w symbol of
        Inl e \<Rightarrow> Inl e
      | Inr ns \<Rightarrow>
          (case google_titles w symbol of
             Inl e \<Rightarrow> Inl e
           | Inr gs \<Rightarrow> Inr (ns @ gs)))"

text \<open>
  The returned dict, as a record. The scoring lines call \<^verbatim>\<open>t.lower()\<close> on every
  title, a method only a string has: a title that is not a string raises
  \<^verbatim>\<open>AttributeError\<close> before anything is returned (\<open>py_str\<close>).
\<close>

record sentiment =
  sentiment_symbol :: string
  positive_headlines :: int
  negative_headlines :: int
  total_headlines :: int
  sentiment_score :: rat
  sample_headlines :: "pyval list"

fun py_str :: "pyval \<Rightarrow> error + string" where
  "py_str (PStr s) = Inr s"
| "py_str _ = Inl AttributeError"

definition get_headline_sentiment :: "world \<Rightarrow> string \<Rightarrow> error + sentiment" where
  "get_headline_sentiment w symbol =
     (case all_titles w symbol of
        Inl e \<Rightarrow> Inl e
      | Inr titles \<Rightarrow>
          (case sequence (map py_str titles) of
             Inl e \<Rightarrow> Inl e
           | Inr items \<Rightarrow>
               (let sc = score_items (str_lower w) items
                in Inr \<lparr>sentiment_symbol = symbol,
                        positive_headlines = positive_count sc,
                        negative_headlines = negative_count sc,
                        total_headlines = total_count sc,
                        sentiment_score = score sc,
                        sample_headlines = take 3 titles\<rparr>)))"

section \<open>Enrichment and the per-candidate step\<close>

text \<open>
  \<^verbatim>\<open>StockRecommendation\<close>. A dataclass does not check its field types, so the name and
  the sector are whatever the lookup's document holds under those keys. The
  \<^verbatim>\<open>reasoning\<close> string is kept as the two values its template interpolates, the score
  and the sample headlines.
\<close>

record StockRecommendation =
  symbol :: string
  company_name :: pyval
  current_price :: rat
  confidence_score :: rat
  reasoning :: "rat \<times> pyval list"
  sector :: pyval
  market_cap :: "string option"
  pe_ratio :: "rat option"
  news_sentiment :: "rat option"
  trend_alignment :: "string option"

definition is_valid_json :: "world \<Rightarrow> string \<Rightarrow> bool" where
  "is_valid_json w s = (case json_loads w s of None \<Rightarrow> False | Some json_object \<Rightarrow> True)"

text \<open>
  Lines 258 to 264: the name and the sector from the lookup's return value. The guard
  tests that the value is a string that parses; \<^verbatim>\<open>company_data.get\<close> is then called
  on whatever it parsed to.
\<close>

definition company_name_and_sector ::
  "world \<Rightarrow> string \<Rightarrow> pyval \<Rightarrow> error + pyval \<times> pyval" where
  "company_name_and_sector w symb company_info =
     (case company_info of
        PStr s \<Rightarrow>
          (if is_valid_json w s then
             (case json_loads w s of
                None \<Rightarrow> Inl ExternalError
              | Some company_data \<Rightarrow>
                  (case py_get company_data ''Name'' (PStr symb) of
                     Inl e \<Rightarrow> Inl e
                   | Inr name \<Rightarrow>
                       (case py_get company_data ''Sector'' (PStr ''Unknown'') of
                          Inl e \<Rightarrow> Inl e
                        | Inr sec \<Rightarrow> Inr (name, sec))))
           else Inr (PStr symb, PStr ''Unknown''))
      | _ \<Rightarrow> Inr (PStr symb, PStr ''Unknown''))"

text \<open>
  The body of the \<^verbatim>\<open>try\<close> of lines 252 to 276 for one symbol: \<open>Inl\<close> when it raises,
  \<open>Inr None\<close> at the \<^verbatim>\<open>continue\<close> of a candidate without headlines, \<open>Inr (Some rec)\<close>
  when a record is appended.
\<close>

definition analyze :: "world \<Rightarrow> string \<Rightarrow> error + StockRecommendation option" where
  "analyze w symb =
     (case get_headline_sentiment w symb of
        Inl e \<Rightarrow> Inl e
      | Inr sent \<Rightarrow>
          (if total_headlines sent = 0 then Inr None
           else
             (case get_company_info w symb of
                LookupRaises \<Rightarrow> Inl ExternalError
              | LookupReturns company_info \<Rightarrow>
                  (case company_name_and_sector w symb company_info of
                     Inl e \<Rightarrow> Inl e
                   | Inr (name, sec) \<Rightarrow>
                       Inr (Some \<lparr>symbol = symb,
                                  company_name = name,
                                  current_price = 0,
                                  confidence_score = sentiment_score sent,
                                  reasoning = (sentiment_score sent, sample_headlines sent),
                                  sector = sec,
                                  market_cap = None,
                                  pe_ratio = None,
                                  news_sentiment = None,
                                  trend_alignment = None\<rparr>)))))"

section \<open>The loop and the ranker\<close>

text \<open>
  The \<^verbatim>\<open>for\<close> loop of lines 249 to 279 with its accumulator \<^verbatim>\<open>recommendations\<close>:
  the handler \<^verbatim>\<open>except Exception\<close> logs and goes on to the next symbol.
\<close>

fun analyze_stocks ::
  "world \<Rightarrow> string list \<Rightarrow> StockRecommendation list \<Rightarrow> StockRecommendation list" where
  "analyze_stocks w [] recommendations = recommendations"
| "analyze_stocks w (symb # rest) recommendations =
     (case analyze w symb of
        Inl e \<Rightarrow> analyze_stocks w rest recommendations
      | Inr None \<Rightarrow> analyze_stocks w rest recommendations
      | Inr (Some r) \<Rightarrow> analyze_stocks w rest (recommendations @ [r]))"

text \<open>
  \<^verbatim>\<open>list.sort(key=..., reverse=True)\<close> is a stable sort that keeps the original order
  of elements with equal keys: the list is reversed, sorted stably in ascending order
  and reversed again.
\<close>

definition sort_reverse :: "('a \<Rightarrow> rat) \<Rightarrow> 'a list \<Rightarrow> 'a list" where
  "sort_reverse key xs = rev (sort_key key (rev xs))"

text \<open>
  \<^verbatim>\<open>xs[:n]\<close>: the first \<open>n\<close> elements, and for a negative \<open>n\<close> all but the last
  \<open>-n\<close>.
\<close>

definition slice_to :: "'a list \<Rightarrow> int \<Rightarrow> 'a list" where
  "slice_to xs n =
     (if 0 \<le> n then take (nat n) xs else take (nat (int (length xs) + n)) xs)"

text \<open>
  The value of \<^verbatim>\<open>recommendations\<close> when the loop over \<^verbatim>\<open>self.stock_universe\<close>
  is done, then after the filter of line 281, the sort of line 282 and the slice of
  line 283.
\<close>

definition assembled :: "world \<Rightarrow> string list \<Rightarrow> StockRecommendation list" where
  "assembled w universe = analyze_stocks w universe []"

definition positive_records :: "world \<Rightarrow> string list \<Rightarrow> StockRecommendation list" where
  "positive_records w universe = filter (\<lambda>r. confidence_score r > 0) (assembled w universe)"

definition generate_recommendations ::
  "world \<Rightarrow> string list \<Rightarrow> int \<Rightarrow> StockRecommendation list" where
  "generate_recommendations w universe top_n =
     slice_to (sort_reverse confidence_score (positive_records w universe)) top_n"

text \<open>The universe that \<^verbatim>\<open>InvestmentAgent.__init__\<close> installs (lines 160 to 215).\<close>

definition stock_universe :: "string list" where
  "stock_universe = [
     ''AAPL'', ''MSFT'', ''GOOGL'', ''AMZN'', ''NVDA'', ''META'', ''TSLA'', ''NFLX'', ''ADBE'', ''CRM'',
     ''ORCL'', ''CSCO'', ''INTC'', ''AMD'', ''QCOM'', ''AVGO'', ''TXN'', ''MU'', ''INTU'', ''ADP'',
     ''IBM'', ''NOW'', ''SNPS'', ''KLAC'', ''LRCX'', ''ADI'', ''CDNS'', ''MCHP'', ''MRVL'', ''WDAY'',
     ''JNJ'', ''UNH'', ''PFE'', ''ABBV'', ''TMO'', ''DHR'', ''LLY'', ''ABT'', ''BMY'', ''AMGN'',
     ''CVS'', ''CI'', ''ANTM'', ''GILD'', ''REGN'', ''VRTX'', ''BIIB'', ''HUM'', ''ISRG'', ''BDX'',
     ''DVA'', ''HCA'', ''CNC'', ''AET'', ''WBA'', ''CAH'', ''MCK'', ''ABC'', ''ZTS'', ''ALGN'',
     ''JPM'', ''BAC'', ''WFC'', ''GS'', ''MS'', ''BLK'', ''V'', ''MA'', ''AXP'', ''C'',
     ''USB'', ''PNC'', ''TFC'', ''COF'', ''SCHW'', ''CB'', ''AIG'', ''MET'', ''PRU'', ''ALL'',
     ''TRV'', ''AFL'', ''HIG'', ''PFG'', ''BEN'', ''IVZ'', ''TROW'', ''AMP'', ''NTRS'', ''STT'',
     ''AMZN'', ''TSLA'', ''HD'', ''MCD'', ''DIS'', ''NKE'', ''SBUX'', ''TGT'', ''LOW'', ''TJX'',
     ''BKNG'', ''MAR'', ''HLT'', ''CMG'', ''YUM'', ''DPZ'', ''SBUX'', ''ULTA'', ''ROST'', ''TJX'',
     ''ORLY'', ''AZO'', ''KMX'', ''LVS'', ''WYNN'', ''MGM'', ''CCL'', ''RCL'', ''NCLH'', ''UAL'',
     ''PG'', ''KO'', ''PEP'', ''WMT'', ''COST'', ''PM'', ''MO'', ''MDLZ'', ''GIS'', ''K'',
     ''HSY'', ''SJM'', ''CAG'', ''KMB'', ''CL'', ''EL'', ''ULTA'', ''DG'', ''DLTR'', ''FIVE'',
     ''KR'', ''SFM'', ''SPLS'', ''BBY'', ''GME'', ''TSCO'', ''ORLY'', ''AZO'', ''KMX'', ''CVNA'',
     ''XOM'', ''CVX'', ''COP'', ''EOG'', ''SLB'', ''ENPH'', ''SEDG'', ''FSLR'', ''NEE'', ''DUK'',
     ''SO'', ''D'', ''NEE'', ''AEP'', ''XEL'', ''DTE'', ''ED'', ''PEG'', ''WEC'', ''CMS'',
     ''CNP'', ''AEE'', ''EIX'', ''PCG'', ''SRE'', ''VLO'', ''MPC'', ''PSX'', ''VLO'', ''MPC'',
     ''CAT'', ''DE'', ''BA'', ''GE'', ''MMM'', ''HON'', ''UPS'', ''FDX'', ''LMT'', ''RTX'',
     ''NOC'', ''GD'', ''LHX'', ''TDG'', ''TXT'', ''EMR'', ''ETN'', ''ITW'', ''DOV'', ''XYL'',
     ''PH'', ''AME'', ''FTV'', ''IEX'', ''PNR'', ''DCI'', ''GWW'', ''FAST'', ''GPC'', ''WSO'',
     ''AMT'', ''PLD'', ''CCI'', ''EQIX'', ''DLR'', ''PSA'', ''O'', ''SPG'', ''VICI'', ''WELL'',
     ''EQR'', ''AVB'', ''MAA'', ''ESS'', ''UDR'', ''CPT'', ''AIV'', ''BXP'', ''VNO'', ''SLG'',
     ''KIM'', ''FRT'', ''REG'', ''MAC'', ''PEAK'', ''ARE'', ''BMRN'', ''HST'', ''PK'', ''AHT'',
     ''LIN'', ''APD'', ''FCX'', ''NEM'', ''BHP'', ''RIO'', ''VALE'', ''AA'', ''X'', ''NUE'',
     ''SHW'', ''ECL'', ''APTV'', ''ALB'', ''LVS'', ''WYNN'', ''MGM'', ''CCL'', ''RCL'', ''NCLH'',
     ''DOW'', ''DD'', ''EMN'', ''LYB'', ''BLL'', ''IP'', ''PKG'', ''WRK'', ''SEE'', ''BMS'',
     ''GOOGL'', ''META'', ''NFLX'', ''DIS'', ''CMCSA'', ''CHTR'', ''VZ'', ''T'', ''TMUS'', ''ATVI'',
     ''EA'', ''TTWO'', ''ZNGA'', ''MTCH'', ''SNAP'', ''PINS'', ''TWTR'', ''LYV'', ''FOX'', ''NWSA'',
     ''PARA'', ''WBD'', ''LUMN'', ''CTL'', ''VZ'', ''T'', ''TMUS'', ''S'', ''LBRDK'', ''LBRDA'',
     ''NEE'', ''DUK'', ''SO'', ''D'', ''AEP'', ''XEL'', ''DTE'', ''ED'', ''PEG'', ''WEC'',
     ''CMS'', ''CNP'', ''AEE'', ''EIX'', ''PCG'', ''SRE'', ''AEP'', ''XEL'', ''DTE'', ''ED'',
     ''PEG'', ''WEC'', ''CMS'', ''CNP'', ''AEE'', ''EIX'', ''PCG'', ''SRE'', ''VLO'', ''MPC'']"

section \<open>Auxiliary definitions and sample data\<close>

text \<open>What one symbol contributes to \<^verbatim>\<open>recommendations\<close>: one record or none.\<close>

definition records_of :: "world \<Rightarrow> string \<Rightarrow> StockRecommendation list" where
  "records_of w symb = (case analyze w symb of Inr (Some r) \<Rightarrow> [r] | _ \<Rightarrow> [])"

text \<open>The title an article dict carries, with the default of \<^verbatim>\<open>a.get('title', '')\<close>.\<close>

fun article_title :: "pyval \<Rightarrow> pyval" where
  "article_title (PDict kvs) = (case map_of kvs ''title'' of None \<Rightarrow> PStr [] | Some v \<Rightarrow> v)"
| "article_title _ = PStr []"

fun is_dict :: "pyval \<Rightarrow> bool" where
  "is_dict (PDict kvs) = True"
| "is_dict _ = False"

fun is_str :: "pyval \<Rightarrow> bool" where
  "is_str (PStr s) = True"
| "is_str _ = False"

text \<open>The title the agent reads off a search hit in advanced mode.\<close>

definition hit_title_text :: "search_hit \<Rightarrow> pyval" where
  "hit_title_text h = PStr (case hit_title h of None \<Rightarrow> [] | Some t \<Rightarrow> t)"

text \<open>
  A small snapshot of the collaborators, for concrete runs: six symbols, the news
  bodies in the shape NewsAPI returns them, two search hits (one without a title), and the values of
  \<^verbatim>\<open>json.loads\<close> on the two documents that parse (every other string raises).
\<close>

definition acme_profile :: string where
  \<open>acme_profile = ''{"Name": "Acme Corp", "Sector": "Technology"}''\<close>

definition article :: "string \<Rightarrow> pyval" where
  "article t = PDict [(''title'', PStr t)]"

definition news_body :: "string list \<Rightarrow> pyval" where
  "news_body ts = PDict [(''status'', PStr ''ok''), (''articles'', PList (map article ts))]"

definition sample_news :: "(string \<times> string list) list" where
  "sample_news =
     [(''AAA'', [''AAA stock gain continues'']),
      (''CCC'', [''CCC shares surge'', ''CCC opens office'']),
      (''DDD'', [''DDD beats forecast'']),
      (''EEE'', [''EEE shares drop'']),
      (''FFF'', [''Profit falls sharply''])]"

definition sample_hits :: "(string \<times> search_hit list) list" where
  "sample_hits =
     [(''CCC stock news'',
        [\<lparr>hit_url = ''https://example.com/ccc'', hit_title = Some ''CCC record quarter'',
          hit_description = Some ''Quarterly report''\<rparr>,
         \<lparr>hit_url = ''https://example.com/untitled'', hit_title = None,
          hit_description = None\<rparr>])]"

definition sample_loads :: "(string \<times> pyval) list" where
  "sample_loads =
     [(acme_profile, PDict [(''Name'', PStr ''Acme Corp''), (''Sector'', PStr ''Technology'')]),
      (''[]'', PList [])]"

definition sample_world :: world where
  "sample_world =
     \<lparr>news_enabled = True,
      http_get = (\<lambda>query days_back.
        HttpJson (news_body (case map_of sample_news query of None \<Rightarrow> [] | Some ts \<Rightarrow> ts))),
      search = (\<lambda>term num_results advanced.
        SearchYields (case map_of sample_hits term of None \<Rightarrow> [] | Some hs \<Rightarrow> hs)),
      get_company_info = (\<lambda>symb.
        LookupReturns (PStr (if symb = ''AAA'' then acme_profile
                             else ''Error fetching company profile''))),
      json_loads = map_of sample_loads,
      str_lower = ascii_lower\<rparr>"

definition sample_universe :: "string list" where
  "sample_universe = [''AAA'', ''BBB'', ''CCC'', ''DDD'', ''EEE'', ''FFF'']"

text \<open>The same snapshot with the search generator raising on every query.\<close>

definition search_down_world :: world where
  "search_down_world = sample_world\<lparr>search := (\<lambda>term num_results advanced. SearchRaises)\<rparr>"

text \<open>The same snapshot with the search generator raising on the query for one symbol.\<close>

definition ddd_search_down_world :: world where
  "ddd_search_down_world =
     sample_world\<lparr>search := (\<lambda>term num_results advanced.
        if term = ''DDD stock news'' then SearchRaises
        else search sample_world term num_results advanced)\<rparr>"

text \<open>The same snapshot with a lookup that answers the JSON document \<^verbatim>\<open>[]\<close>.\<close>

definition array_profile_world :: world where
  "array_profile_world =
     sample_world\<lparr>get_company_info := (\<lambda>symb. LookupReturns (PStr ''[]''))\<rparr>"

text \<open>The same snapshot with one more headline, for the symbol \<^verbatim>\<open>AMZN\<close>.\<close>

definition amzn_world :: world where
  "amzn_world =
     sample_world\<lparr>http_get := (\<lambda>query days_back.
        HttpJson (news_body (if query = ''AMZN'' then [''Amazon shares gain''] else [])))\<rparr>"

section \<open>Facts about the model\<close>

subsection \<open>The loop\<close>

lemma records_of_simps:
  "analyze w x = Inl e \<Longrightarrow> records_of w x = []"
  "analyze w x = Inr None \<Longrightarrow> records_of w x = []"
  "analyze w x = Inr (Some r) \<Longrightarrow> records_of w x = [r]"
  by (simp_all add: records_of_def)

lemma analyze_stocks_acc:
  "analyze_stocks w universe acc = acc @ concat (map (records_of w) universe)"
proof (induction universe arbitrary: acc)
  case Nil
  show ?case by simp
next
  case (Cons x xs)
  show ?case
  proof (cases "analyze w x")
    case (Inl e)
    then show ?thesis using Cons by (simp add: records_of_simps)
  next
    case (Inr o1)
    then show ?thesis using Cons by (cases o1) (simp_all add: records_of_simps)
  qed
qed

lemma assembled_concat: "assembled w universe = concat (map (records_of w) universe)"
  by (simp add: assembled_def analyze_stocks_acc)

lemma assembled_append: "assembled w (xs @ ys) = assembled w xs @ assembled w ys"
  by (simp add: assembled_concat)

lemma assembled_Cons: "assembled w (x # xs) = records_of w x @ assembled w xs"
  by (simp add: assembled_concat)

lemma analyze_symbol:
  assumes "analyze w symb = Inr (Some r)"
  shows "symbol r = symb"
proof (cases "get_headline_sentiment w symb")
  case (Inl e)
  with assms show ?thesis by (simp add: analyze_def)
next
  case (Inr sent)
  note sent = this
  show ?thesis
  proof (cases "total_headlines sent = 0")
    case True
    with assms sent show ?thesis by (simp add: analyze_def)
  next
    case False
    note pos = this
    show ?thesis
    proof (cases "get_company_info w symb")
      case LookupRaises
      with assms sent pos show ?thesis by (simp add: analyze_def)
    next
      case (LookupReturns company_info)
      note info = this
      show ?thesis
      proof (cases "company_name_and_sector w symb company_info")
        case (Inl e)
        with assms sent pos info show ?thesis by (simp add: analyze_def)
      next
        case (Inr p)
        obtain name sec where p: "p = (name, sec)" by (cases p)
        from assms sent pos info Inr p show ?thesis
          by (simp add: analyze_def) (cases r, simp)
      qed
    qed
  qed
qed

lemma records_of_symbol: "r \<in> set (records_of w symb) \<Longrightarrow> symbol r = symb"
proof (cases "analyze w symb")
  case (Inl e)
  assume "r \<in> set (records_of w symb)"
  with Inl show ?thesis by (simp add: records_of_simps)
next
  case (Inr o1)
  assume r: "r \<in> set (records_of w symb)"
  show ?thesis
  proof (cases o1)
    case None
    with Inr r show ?thesis by (simp add: records_of_simps)
  next
    case (Some r')
    with Inr r have "r = r'" by (simp add: records_of_simps)
    with Inr Some show ?thesis by (simp add: analyze_symbol)
  qed
qed

lemma sort_reverse_stable:
  "filter (\<lambda>y. key y = k) (sort_reverse key xs) = filter (\<lambda>y. key y = k) xs"
proof -
  have "filter (\<lambda>y. key y = k) (sort_reverse key xs)
        = rev (filter (\<lambda>y. key y = k) (sort_key key (rev xs)))"
    unfolding sort_reverse_def by (rule rev_filter [symmetric])
  also have "\<dots> = rev (filter (\<lambda>y. key y = k) (rev xs))"
    by (simp only: sort_key_stable)
  also have "\<dots> = filter (\<lambda>y. key y = k) xs"
    by (simp only: rev_filter rev_rev_ident)
  finally show ?thesis .
qed

lemma sort_reverse_sorted:
  "sorted_wrt (\<lambda>a b. key b \<le> key a) (sort_reverse key xs)"
proof -
  have "sorted (map key (sort_key key (rev xs)))" by (rule sorted_sort_key)
  then have "sorted_wrt (\<lambda>a b. key a \<le> key b) (sort_key key (rev xs))"
    by (simp only: sorted_map)
  then show ?thesis unfolding sort_reverse_def by (simp only: sorted_wrt_rev)
qed

lemma set_sort_reverse: "set (sort_reverse key xs) = set xs"
  by (simp add: sort_reverse_def)


lemma prefix_slice_to: "prefix (slice_to xs n) xs"
  by (simp add: slice_to_def take_is_prefix)

lemma set_slice_to: "set (slice_to xs n) \<subseteq> set xs"
  by (rule set_mono_prefix [OF prefix_slice_to])


subsection \<open>The collector\<close>

lemma sequence_py_str:
  "sequence (map py_str titles) = Inr items \<Longrightarrow> titles = map PStr items"
proof (induction titles arbitrary: items)
  case Nil
  then show ?case by simp
next
  case (Cons t ts)
  show ?case
  proof (cases t)
    case (PStr s)
    show ?thesis
    proof (cases "sequence (map py_str ts)")
      case (Inl e)
      with Cons.prems PStr show ?thesis by simp
    next
      case (Inr vs)
      with Cons.prems PStr have "items = s # vs" by simp
      moreover from Cons.IH [OF Inr] have "ts = map PStr vs" .
      ultimately show ?thesis using PStr by simp
    qed
  qed (use Cons.prems in simp_all)
qed

lemma sequence_py_str_total:
  "sequence (map py_str (map PStr items)) = Inr items"
  by (induction items) simp_all

lemma sequence_get_title:
  "sequence (map (\<lambda>a. py_get a ''title'' (PStr [])) arts) = Inr ns
     \<Longrightarrow> ns = map article_title arts \<and> list_all is_dict arts"
proof (induction arts arbitrary: ns)
  case Nil
  then show ?case by simp
next
  case (Cons a as)
  show ?case
  proof (cases a)
    case (PDict kvs)
    show ?thesis
    proof (cases "sequence (map (\<lambda>a. py_get a ''title'' (PStr [])) as)")
      case (Inl e)
      with Cons.prems PDict show ?thesis by simp
    next
      case (Inr vs)
      with Cons.prems PDict have "ns = article_title a # vs" by simp
      moreover from Cons.IH [OF Inr] have "vs = map article_title as \<and> list_all is_dict as" .
      ultimately show ?thesis using PDict by simp
    qed
  qed (use Cons.prems in simp_all)
qed

lemma sequence_get_title_total:
  "list_all is_dict arts \<Longrightarrow>
     sequence (map (\<lambda>a. py_get a ''title'' (PStr [])) arts) = Inr (map article_title arts)"
proof (induction arts)
  case Nil
  show ?case by simp
next
  case (Cons a as)
  then show ?case by (cases a) simp_all
qed

lemma google_titles_yields:
  "search w (symb @ '' stock news'') 5 True = SearchYields hits
     \<Longrightarrow> google_titles w symb = Inr (map hit_title_text hits)"
  by (simp add: google_titles_def google_search_def title_or_empty_def hit_title_text_def
      Let_def comp_def)

lemma google_titles_raises:
  "search w (symb @ '' stock news'') 5 True = SearchRaises
     \<Longrightarrow> google_titles w symb = Inl ExternalError"
  by (simp add: google_titles_def google_search_def)

lemma get_headline_sentiment_Inr:
  assumes "get_headline_sentiment w symb = Inr sent"
  shows "\<exists>items. all_titles w symb = Inr (map PStr items)
           \<and> sentiment_symbol sent = symb
           \<and> positive_headlines sent = positive_count (score_items (str_lower w) items)
           \<and> negative_headlines sent = negative_count (score_items (str_lower w) items)
           \<and> total_headlines sent = total_count (score_items (str_lower w) items)
           \<and> sentiment_score sent = score (score_items (str_lower w) items)
           \<and> sample_headlines sent = take 3 (map PStr items)"
proof (cases "all_titles w symb")
  case (Inl e)
  with assms show ?thesis by (simp add: get_headline_sentiment_def)
next
  case (Inr titles)
  note titles = this
  show ?thesis
  proof (cases "sequence (map py_str titles)")
    case (Inl e)
    with assms titles show ?thesis by (simp add: get_headline_sentiment_def)
  next
    case (Inr items)
    from sequence_py_str [OF Inr] have "titles = map PStr items" .
    moreover from assms titles Inr
    have "sent = \<lparr>sentiment_symbol = symb,
                  positive_headlines = positive_count (score_items (str_lower w) items),
                  negative_headlines = negative_count (score_items (str_lower w) items),
                  total_headlines = total_count (score_items (str_lower w) items),
                  sentiment_score = score (score_items (str_lower w) items),
                  sample_headlines = take 3 titles\<rparr>"
      by (simp add: get_headline_sentiment_def Let_def)
    ultimately show ?thesis using titles by (intro exI [of _ items]) simp
  qed
qed

lemma all_titles_Inr:
  assumes "all_titles w symb = Inr titles"
  shows "\<exists>ns gs. news_titles w symb = Inr ns \<and> google_titles w symb = Inr gs \<and> titles = ns @ gs"
proof (cases "news_titles w symb")
  case (Inl e)
  with assms show ?thesis by (simp add: all_titles_def)
next
  case (Inr ns)
  note ns = this
  show ?thesis
  proof (cases "google_titles w symb")
    case (Inl e)
    with assms ns show ?thesis by (simp add: all_titles_def)
  next
    case (Inr gs)
    with assms ns show ?thesis by (simp add: all_titles_def)
  qed
qed

lemma news_titles_iter:
  "py_iter (get_trending_news w symb 5) = Inr arts \<Longrightarrow>
     news_titles w symb = sequence (map (\<lambda>a. py_get a ''title'' (PStr [])) arts)"
  by (simp add: news_titles_def)

lemma get_headline_sentiment_returns:
  assumes news: "py_iter (get_trending_news w symb 5) = Inr arts"
    and dicts: "list_all is_dict arts"
    and strs: "map article_title arts = map PStr ts"
    and hits: "search w (symb @ '' stock news'') 5 True = SearchYields hits"
  shows "\<exists>sent. get_headline_sentiment w symb = Inr sent"
proof -
  let ?gs = "map (\<lambda>h. case hit_title h of None \<Rightarrow> [] | Some t \<Rightarrow> t) hits"
  from news_titles_iter [OF news] sequence_get_title_total [OF dicts] strs
  have ns: "news_titles w symb = Inr (map PStr ts)" by simp
  have "map hit_title_text hits = map PStr ?gs" by (simp add: hit_title_text_def)
  with google_titles_yields [OF hits] have gs: "google_titles w symb = Inr (map PStr ?gs)"
    by simp
  from ns gs have "all_titles w symb = Inr (map PStr (ts @ ?gs))" by (simp add: all_titles_def)
  moreover have "sequence (map py_str (map PStr (ts @ ?gs))) = Inr (ts @ ?gs)"
    by (rule sequence_py_str_total)
  ultimately show ?thesis by (simp add: get_headline_sentiment_def Let_def)
qed

subsection \<open>The scorer\<close>

lemma count_hits_Nil: "count_hits ws [] = 0"
  by (simp add: count_hits_def)

lemma count_hits_Cons:
  "count_hits ws (t # ts) = of_bool (any_word_in ws t) + count_hits ws ts"
  by (simp add: count_hits_def)

lemma count_hits_bounds: "0 \<le> count_hits ws ts \<and> count_hits ws ts \<le> int (length ts)"
  by (induction ts) (simp_all add: count_hits_Nil count_hits_Cons)

lemma sentiment_score_of_bounds:
  assumes "0 \<le> p" "p \<le> n" "0 \<le> q" "q \<le> n"
  shows "- 1 \<le> sentiment_score_of p q n \<and> sentiment_score_of p q n \<le> 1"
proof (cases "n > 0")
  case False
  then show ?thesis by (simp add: sentiment_score_of_def)
next
  case True
  then have n: "(0::rat) < of_int n" by simp
  have "p - q \<le> n" using assms by linarith
  then have a: "(of_int (p - q) :: rat) \<le> of_int n" by (simp only: of_int_le_iff)
  have "- n \<le> p - q" using assms by linarith
  then have "(of_int (- n) :: rat) \<le> of_int (p - q)" by (simp only: of_int_le_iff)
  then have b: "- (of_int n :: rat) \<le> of_int (p - q)" by simp
  from n a have "(of_int (p - q) :: rat) / of_int n \<le> 1" by (simp add: divide_le_eq)
  moreover from n b have "- 1 \<le> (of_int (p - q) :: rat) / of_int n" by (simp add: le_divide_eq)
  ultimately show ?thesis using True by (simp add: sentiment_score_of_def)
qed

lemma score_items_fields:
  "positive_count (score_items lw items) = count_hits positive_words (map lw items)"
  "negative_count (score_items lw items) = count_hits negative_words (map lw items)"
  "total_count (score_items lw items) = int (length items)"
  "score (score_items lw items) =
     sentiment_score_of (count_hits positive_words (map lw items))
       (count_hits negative_words (map lw items)) (int (length items))"
  by (simp_all add: score_items_def Let_def)

section \<open>The claims\<close>

text \<open>
  C6. For every list of text items (and every lowering function) the scorer's score
  lies between -1 and 1, the total
  is the number of items, the score is (positive - negative) / total when the total is
  positive, and the score of the empty list is 0.
\<close>

theorem score_bounded_and_defined:
  "- 1 \<le> score (score_items lw items) \<and> score (score_items lw items) \<le> 1
   \<and> total_count (score_items lw items) = int (length items)
   \<and> (0 < total_count (score_items lw items) \<longrightarrow>
        score (score_items lw items) =
          of_int (positive_count (score_items lw items) - negative_count (score_items lw items))
            / of_int (total_count (score_items lw items)))
   \<and> score (score_items lw []) = 0"
proof -
  let ?p = "count_hits positive_words (map lw items)"
  let ?q = "count_hits negative_words (map lw items)"
  have p: "0 \<le> ?p \<and> ?p \<le> int (length items)"
    using count_hits_bounds [of positive_words "map lw items"] by simp
  have q: "0 \<le> ?q \<and> ?q \<le> int (length items)"
    using count_hits_bounds [of negative_words "map lw items"] by simp
  from p q have "- 1 \<le> sentiment_score_of ?p ?q (int (length items))
      \<and> sentiment_score_of ?p ?q (int (length items)) \<le> 1"
    by (intro sentiment_score_of_bounds) simp_all
  then have bounds: "- 1 \<le> score (score_items lw items) \<and> score (score_items lw items) \<le> 1"
    by (simp only: score_items_fields)
  have ratio: "0 < total_count (score_items lw items) \<longrightarrow>
        score (score_items lw items) =
          of_int (positive_count (score_items lw items) - negative_count (score_items lw items))
            / of_int (total_count (score_items lw items))"
    by (simp add: score_items_fields sentiment_score_of_def)
  have empty: "score (score_items lw []) = 0"
    by (simp add: score_items_fields sentiment_score_of_def)
  have "total_count (score_items lw items) = int (length items)"
    by (simp add: score_items_fields)
  with bounds ratio empty show ?thesis by blast
qed

theorem score_bounded_and_defined_witness:
  "0 < total_count (score_items ascii_lower [''Stock surges on strong earnings'', ''Shares drop'', ''Weak outlook''])
   \<and> score (score_items ascii_lower [''Stock surges on strong earnings'', ''Shares drop'', ''Weak outlook''])
       = of_int (1 - 2) / of_int 3
   \<and> - 1 \<le> score (score_items ascii_lower [''Stock surges on strong earnings'', ''Shares drop'', ''Weak outlook''])
   \<and> score (score_items ascii_lower [''Stock surges on strong earnings'', ''Shares drop'', ''Weak outlook'']) \<le> 1"
proof -
  let ?xs = "[''Stock surges on strong earnings'', ''Shares drop'', ''Weak outlook'']"
  have t: "total_count (score_items ascii_lower ?xs) = 3" by code_simp
  have p: "positive_count (score_items ascii_lower ?xs) = 1" by code_simp
  have n: "negative_count (score_items ascii_lower ?xs) = 2" by code_simp
  from score_bounded_and_defined [of ascii_lower ?xs] t p n show ?thesis by simp
qed



text \<open>
  C9. Whenever \<^verbatim>\<open>get_headline_sentiment\<close> returns, the collected titles are the
  titles of the news articles in the adapter's order followed by the titles of the
  search results in their order, one per article and one per result (nothing is
  dropped or merged), and \<^verbatim>\<open>sample_headlines\<close> is the first three of that list.
\<close>

theorem collector_concatenates:
  assumes news: "py_iter (get_trending_news w symb 5) = Inr arts"
    and hits: "search w (symb @ '' stock news'') 5 True = SearchYields hits"
    and sent: "get_headline_sentiment w symb = Inr sent"
  shows "all_titles w symb = Inr (map article_title arts @ map hit_title_text hits)
    \<and> total_headlines sent = int (length arts) + int (length hits)
    \<and> sample_headlines sent = take 3 (map article_title arts @ map hit_title_text hits)"
proof -
  from get_headline_sentiment_Inr [OF sent] obtain items where
    titles: "all_titles w symb = Inr (map PStr items)"
    and tot: "total_headlines sent = total_count (score_items (str_lower w) items)"
    and sample: "sample_headlines sent = take 3 (map PStr items)"
    by blast
  from all_titles_Inr [OF titles] obtain ns gs where
    ns: "news_titles w symb = Inr ns" and gs: "google_titles w symb = Inr gs"
    and cat: "map PStr items = ns @ gs"
    by blast
  from ns news_titles_iter [OF news]
  have "sequence (map (\<lambda>a. py_get a ''title'' (PStr [])) arts) = Inr ns" by simp
  from sequence_get_title [OF this] have ns_eq: "ns = map article_title arts" by simp
  from gs google_titles_yields [OF hits] have gs_eq: "gs = map hit_title_text hits" by simp
  have "length items = length (map PStr items)" by simp
  also have "\<dots> = length arts + length hits" by (simp only: cat ns_eq gs_eq length_append length_map)
  finally have len: "length items = length arts + length hits" .
  from titles cat ns_eq gs_eq
  have "all_titles w symb = Inr (map article_title arts @ map hit_title_text hits)" by simp
  moreover from tot len have "total_headlines sent = int (length arts) + int (length hits)"
    by (simp add: score_items_fields)
  moreover from sample cat ns_eq gs_eq
  have "sample_headlines sent = take 3 (map article_title arts @ map hit_title_text hits)" by simp
  ultimately show ?thesis by blast
qed

theorem collector_concatenates_witness:
  "py_iter (get_trending_news sample_world ''CCC'' 5) =
     Inr [article ''CCC shares surge'', article ''CCC opens office'']
   \<and> search sample_world (''CCC'' @ '' stock news'') 5 True =
     SearchYields
       [\<lparr>hit_url = ''https://example.com/ccc'', hit_title = Some ''CCC record quarter'',
         hit_description = Some ''Quarterly report''\<rparr>,
        \<lparr>hit_url = ''https://example.com/untitled'', hit_title = None,
         hit_description = None\<rparr>]
   \<and> get_headline_sentiment sample_world ''CCC'' =
     Inr \<lparr>sentiment_symbol = ''CCC'', positive_headlines = 2, negative_headlines = 0,
          total_headlines = 4, sentiment_score = 1 / 2,
          sample_headlines = [PStr ''CCC shares surge'', PStr ''CCC opens office'',
                              PStr ''CCC record quarter'']\<rparr>
   \<and> all_titles sample_world ''CCC'' =
     Inr [PStr ''CCC shares surge'', PStr ''CCC opens office'', PStr ''CCC record quarter'',
          PStr []]"
proof -
  let ?arts = "[article ''CCC shares surge'', article ''CCC opens office'']"
  let ?hits = "[\<lparr>hit_url = ''https://example.com/ccc'', hit_title = Some ''CCC record quarter'',
         hit_description = Some ''Quarterly report''\<rparr>,
        \<lparr>hit_url = ''https://example.com/untitled'', hit_title = None,
         hit_description = None\<rparr>]"
  let ?sent = "\<lparr>sentiment_symbol = ''CCC'', positive_headlines = 2, negative_headlines = 0,
          total_headlines = 4, sentiment_score = 1 / 2,
          sample_headlines = [PStr ''CCC shares surge'', PStr ''CCC opens office'',
                              PStr ''CCC record quarter'']\<rparr>"
  have a: "py_iter (get_trending_news sample_world ''CCC'' 5) = Inr ?arts" by code_simp
  have b: "search sample_world (''CCC'' @ '' stock news'') 5 True = SearchYields ?hits"
    by code_simp
  have c: "get_headline_sentiment sample_world ''CCC'' = Inr ?sent" by code_simp
  have d: "map article_title ?arts @ map hit_title_text ?hits =
     [PStr ''CCC shares surge'', PStr ''CCC opens office'', PStr ''CCC record quarter'',
      PStr []]"
    by (simp add: article_def hit_title_text_def)
  from collector_concatenates [OF a b c] a b c d show ?thesis by simp
qed

subsection \<open>Isolation of one candidate\<close>

lemma assembled_removeAll:
  "records_of w symb = [] \<Longrightarrow> assembled w (removeAll symb universe) = assembled w universe"
  by (induction universe) (auto simp: assembled_concat)

lemma assembled_drop_one:
  "records_of w symb = [] \<Longrightarrow> assembled w (xs @ symb # ys) = assembled w (xs @ ys)"
  by (simp add: assembled_append assembled_Cons)

lemma assembled_symbols:
  "r \<in> set (assembled w universe) \<Longrightarrow> r \<in> set (records_of w (symbol r))"
proof -
  assume "r \<in> set (assembled w universe)"
  then obtain s where s: "s \<in> set universe" "r \<in> set (records_of w s)"
    by (auto simp: assembled_concat)
  from records_of_symbol [OF s(2)] s(2) show ?thesis by simp
qed

lemma generate_subset_assembled:
  "set (generate_recommendations w universe n) \<subseteq> set (assembled w universe)"
proof -
  have "set (generate_recommendations w universe n) \<subseteq> set (positive_records w universe)"
    unfolding generate_recommendations_def
    using set_slice_to [of "sort_reverse confidence_score (positive_records w universe)" n]
    by (simp only: set_sort_reverse)
  also have "\<dots> \<subseteq> set (assembled w universe)" by (simp add: positive_records_def)
  finally show ?thesis .
qed

lemma generate_cong:
  "assembled w u1 = assembled w u2 \<Longrightarrow>
     generate_recommendations w u1 n = generate_recommendations w u2 n"
  by (simp add: generate_recommendations_def positive_records_def)

lemma no_record_never_emitted:
  assumes "records_of w symb = []"
  shows "symb \<notin> symbol ` set (generate_recommendations w universe n)"
proof
  assume "symb \<in> symbol ` set (generate_recommendations w universe n)"
  then obtain r where r: "r \<in> set (generate_recommendations w universe n)" "symbol r = symb"
    by auto
  from r(1) generate_subset_assembled have "r \<in> set (assembled w universe)" by blast
  from assembled_symbols [OF this] r(2) assms show False by simp
qed

lemma map_symbol_assembled:
  "map symbol (assembled w universe) = filter (\<lambda>s. records_of w s \<noteq> []) universe"
proof (induction universe)
  case Nil
  show ?case by (simp add: assembled_concat)
next
  case (Cons x xs)
  have "map symbol (records_of w x) = (if records_of w x \<noteq> [] then [x] else [])"
  proof (cases "analyze w x")
    case (Inl e)
    then show ?thesis by (simp add: records_of_simps)
  next
    case (Inr o1)
    then show ?thesis
      by (cases o1) (simp_all add: records_of_simps analyze_symbol)
  qed
  with Cons show ?case by (simp add: assembled_Cons)
qed

text \<open>
  C3. When the evaluation of one symbol raises, the handler of the loop takes it: the
  symbol contributes no record, the assembled list and the ranked output are those of
  the universe without that entry (and without every entry of that symbol), and no
  emitted record carries the symbol.
\<close>

theorem failing_candidate_isolated:
  assumes "analyze w symb = Inl e"
  shows "records_of w symb = []
    \<and> assembled w (xs @ symb # ys) = assembled w (xs @ ys)
    \<and> generate_recommendations w (xs @ symb # ys) top_n
        = generate_recommendations w (xs @ ys) top_n
    \<and> generate_recommendations w universe top_n
        = generate_recommendations w (removeAll symb universe) top_n
    \<and> symb \<notin> symbol ` set (generate_recommendations w universe top_n)"
proof -
  from assms have none: "records_of w symb = []" by (simp add: records_of_simps)
  from assembled_drop_one [OF none]
  have one: "assembled w (xs @ symb # ys) = assembled w (xs @ ys)" .
  from assembled_removeAll [OF none]
  have all: "assembled w universe = assembled w (removeAll symb universe)" by simp
  from none one generate_cong [OF one] generate_cong [OF all] no_record_never_emitted [OF none]
  show ?thesis by blast
qed

theorem failing_candidate_isolated_witness:
  "analyze ddd_search_down_world ''DDD'' = Inl ExternalError
   \<and> map symbol (generate_recommendations ddd_search_down_world
         ([''AAA'', ''BBB'', ''CCC''] @ ''DDD'' # [''EEE'', ''FFF'']) 10) = [''AAA'', ''CCC'']
   \<and> map confidence_score (generate_recommendations ddd_search_down_world
         ([''AAA'', ''BBB'', ''CCC''] @ ''DDD'' # [''EEE'', ''FFF'']) 10) = [1, 1 / 2]
   \<and> generate_recommendations ddd_search_down_world
         ([''AAA'', ''BBB'', ''CCC''] @ ''DDD'' # [''EEE'', ''FFF'']) 10
       = generate_recommendations ddd_search_down_world
           ([''AAA'', ''BBB'', ''CCC''] @ [''EEE'', ''FFF'']) 10
   \<and> map symbol (assembled ddd_search_down_world
         ([''AAA'', ''BBB'', ''CCC''] @ [''EEE'', ''FFF''])) = [''AAA'', ''CCC'', ''EEE'', ''FFF'']
   \<and> assembled ddd_search_down_world ([''AAA'', ''BBB'', ''CCC''] @ ''DDD'' # [''EEE'', ''FFF''])
       = assembled ddd_search_down_world ([''AAA'', ''BBB'', ''CCC''] @ [''EEE'', ''FFF''])
   \<and> ''DDD'' \<notin> symbol ` set (generate_recommendations ddd_search_down_world sample_universe 10)"
proof -
  have a: "analyze ddd_search_down_world ''DDD'' = Inl ExternalError" by code_simp
  have b: "map symbol (generate_recommendations ddd_search_down_world
         ([''AAA'', ''BBB'', ''CCC''] @ ''DDD'' # [''EEE'', ''FFF'']) 10) = [''AAA'', ''CCC'']"
    by code_simp
  have c: "map confidence_score (generate_recommendations ddd_search_down_world
         ([''AAA'', ''BBB'', ''CCC''] @ ''DDD'' # [''EEE'', ''FFF'']) 10) = [1, 1 / 2]"
    by code_simp
  have d: "map symbol (assembled ddd_search_down_world
         ([''AAA'', ''BBB'', ''CCC''] @ [''EEE'', ''FFF''])) = [''AAA'', ''CCC'', ''EEE'', ''FFF'']"
    by code_simp
  from failing_candidate_isolated
    [OF a, of "[''AAA'', ''BBB'', ''CCC'']" "[''EEE'', ''FFF'']" 10 sample_universe] a b c d
  show ?thesis by blast
qed

text \<open>
  C8. A symbol whose sentiment has \<^verbatim>\<open>total_headlines\<close> equal to 0 takes the
  \<^verbatim>\<open>continue\<close>: no exception and no record. The assembled list and the ranked output
  are those of the universe without that entry, and no emitted record carries the
  symbol.
\<close>

theorem no_headlines_no_record:
  assumes "get_headline_sentiment w symb = Inr sent" and "total_headlines sent = 0"
  shows "analyze w symb = Inr None
    \<and> records_of w symb = []
    \<and> assembled w (xs @ symb # ys) = assembled w (xs @ ys)
    \<and> generate_recommendations w (xs @ symb # ys) top_n
        = generate_recommendations w (xs @ ys) top_n
    \<and> symb \<notin> symbol ` set (generate_recommendations w universe top_n)"
proof -
  from assms have skip: "analyze w symb = Inr None" by (simp add: analyze_def)
  then have none: "records_of w symb = []" by (simp add: records_of_simps)
  from assembled_drop_one [OF none]
  have one: "assembled w (xs @ symb # ys) = assembled w (xs @ ys)" .
  from skip none one generate_cong [OF one] no_record_never_emitted [OF none]
  show ?thesis by blast
qed

theorem no_headlines_no_record_witness:
  "get_headline_sentiment sample_world ''BBB'' =
     Inr \<lparr>sentiment_symbol = ''BBB'', positive_headlines = 0, negative_headlines = 0,
          total_headlines = 0, sentiment_score = 0, sample_headlines = []\<rparr>
   \<and> analyze sample_world ''BBB'' = Inr None
   \<and> generate_recommendations sample_world ([''AAA''] @ ''BBB'' # [''CCC'', ''DDD'']) 10
       = generate_recommendations sample_world ([''AAA''] @ [''CCC'', ''DDD'']) 10
   \<and> ''BBB'' \<notin> symbol ` set (generate_recommendations sample_world sample_universe 10)"
proof -
  let ?sent = "\<lparr>sentiment_symbol = ''BBB'', positive_headlines = 0, negative_headlines = 0,
          total_headlines = 0, sentiment_score = 0, sample_headlines = []\<rparr>"
  have a: "get_headline_sentiment sample_world ''BBB'' = Inr ?sent" by code_simp
  have b: "total_headlines ?sent = 0" by simp
  from no_headlines_no_record [OF a b, of "[''AAA'']" "[''CCC'', ''DDD'']" 10 sample_universe] a
  show ?thesis by blast
qed

subsection \<open>The ranker\<close>




text \<open>
  C5. The output is sorted by non-increasing confidence score. For every score, the
  emitted records of that score, in output order, are an initial segment of the
  assembled records of that score, and the assembled records follow the order of the
  universe: records of equal score keep their universe order.
\<close>

theorem ranker_sorted_stable:
  "sorted_wrt (\<lambda>a b. confidence_score b \<le> confidence_score a)
     (generate_recommendations w universe top_n)
   \<and> (\<forall>k. prefix (filter (\<lambda>r. confidence_score r = k) (generate_recommendations w universe top_n))
                 (filter (\<lambda>r. confidence_score r = k) (assembled w universe)))
   \<and> subseq (map symbol (assembled w universe)) universe"
proof -
  let ?ranked = "sort_reverse confidence_score (positive_records w universe)"
  have pre: "prefix (generate_recommendations w universe top_n) ?ranked"
    unfolding generate_recommendations_def by (rule prefix_slice_to)
  have "sorted_wrt (\<lambda>a b. confidence_score b \<le> confidence_score a) ?ranked"
    by (rule sort_reverse_sorted)
  with pre have s: "sorted_wrt (\<lambda>a b. confidence_score b \<le> confidence_score a)
     (generate_recommendations w universe top_n)"
    by (auto simp: prefix_def sorted_wrt_append)
  have st: "prefix (filter (\<lambda>r. confidence_score r = k) (generate_recommendations w universe top_n))
                 (filter (\<lambda>r. confidence_score r = k) (assembled w universe))" for k
  proof -
    have "prefix (filter (\<lambda>r. confidence_score r = k) (generate_recommendations w universe top_n))
            (filter (\<lambda>r. confidence_score r = k) ?ranked)"
      by (rule filter_mono_prefix [OF pre])
    also have "filter (\<lambda>r. confidence_score r = k) ?ranked
        = filter (\<lambda>r. confidence_score r = k) (positive_records w universe)"
      by (rule sort_reverse_stable)
    also have "\<dots> = (if 0 < k then filter (\<lambda>r. confidence_score r = k) (assembled w universe) else [])"
      by (auto simp: positive_records_def intro: filter_cong)
    finally show ?thesis by (simp split: if_splits)
  qed
  have "map symbol (assembled w universe) = filter (\<lambda>s. records_of w s \<noteq> []) universe"
    by (rule map_symbol_assembled)
  then have sub: "subseq (map symbol (assembled w universe)) universe" by simp
  from s st sub show ?thesis by blast
qed

theorem ranker_sorted_stable_witness:
  "map symbol (generate_recommendations sample_world sample_universe 10)
     = [''AAA'', ''DDD'', ''CCC'']
   \<and> map confidence_score (generate_recommendations sample_world sample_universe 10)
     = [1, 1, 1 / 2]
   \<and> sorted_wrt (\<lambda>a b. confidence_score b \<le> confidence_score a)
       (generate_recommendations sample_world sample_universe 10)"
proof -
  have a: "map symbol (generate_recommendations sample_world sample_universe 10)
     = [''AAA'', ''DDD'', ''CCC'']" by code_simp
  have b: "map confidence_score (generate_recommendations sample_world sample_universe 10)
     = [1, 1, 1 / 2]" by code_simp
  from ranker_sorted_stable [of sample_world sample_universe 10] a b show ?thesis by simp
qed

lemma distinct_map_sort_reverse:
  "distinct (map f (sort_reverse key xs)) = distinct (map f xs)"
  by (simp add: distinct_map sort_reverse_def)

lemma slice_to_take: "\<exists>m. slice_to xs n = take m xs"
proof (cases "0 \<le> n")
  case True
  then have "slice_to xs n = take (nat n) xs" by (simp add: slice_to_def)
  then show ?thesis by blast
next
  case False
  then have "slice_to xs n = take (nat (int (length xs) + n)) xs" by (simp add: slice_to_def)
  then show ?thesis by blast
qed

text \<open>
  C10 (amended). The ranker does not deduplicate. When the universe has no repeated
  entry, no two emitted records carry the same symbol. A universe with a repeated
  entry, such as the one \<^verbatim>\<open>__init__\<close> installs, can emit two records of one symbol.
\<close>

theorem symbols_unique_for_distinct_universe:
  assumes "distinct universe"
  shows "distinct (map symbol (generate_recommendations w universe top_n))"
proof -
  from assms have "distinct (map symbol (assembled w universe))"
    by (simp add: map_symbol_assembled)
  then have "distinct (map symbol (positive_records w universe))"
    unfolding positive_records_def by (rule distinct_map_filter)
  then have d: "distinct (map symbol (sort_reverse confidence_score (positive_records w universe)))"
    by (simp only: distinct_map_sort_reverse)
  obtain m where m: "generate_recommendations w universe top_n
      = take m (sort_reverse confidence_score (positive_records w universe))"
    unfolding generate_recommendations_def using slice_to_take by blast
  from d have "distinct (take m (map symbol (sort_reverse confidence_score (positive_records w universe))))"
    by (rule distinct_take)
  then show ?thesis by (simp only: m take_map)
qed

theorem symbols_unique_for_distinct_universe_witness:
  "distinct sample_universe
   \<and> distinct (map symbol (generate_recommendations sample_world sample_universe 10))"
proof -
  have a: "distinct sample_universe" by code_simp
  from symbols_unique_for_distinct_universe [OF a, of sample_world 10] a show ?thesis by blast
qed

theorem duplicate_symbols_counterexample:
  "map symbol (generate_recommendations amzn_world stock_universe 10) = [''AMZN'', ''AMZN'']
   \<and> \<not> distinct (map symbol (generate_recommendations amzn_world stock_universe 10))"
proof -
  have a: "map symbol (generate_recommendations amzn_world stock_universe 10)
      = [''AMZN'', ''AMZN'']"
    by code_simp
  show ?thesis by (simp add: a)
qed

subsection \<open>Adapter failures\<close>

text \<open>
  The news adapter is guarded inside \<^verbatim>\<open>get_trending_news\<close>: disabled or failing, it
  contributes no title and the collector goes on with the search titles alone.
\<close>

lemma news_down_contributes_empty:
  assumes "\<not> news_enabled w \<or> http_get w symb 5 = HttpRaises"
  shows "get_trending_news w symb 5 = PList []"
    and "news_titles w symb = Inr []"
    and "all_titles w symb = google_titles w symb"
proof -
  from assms show a: "get_trending_news w symb 5 = PList []"
    by (auto simp: get_trending_news_def)
  then show b: "news_titles w symb = Inr []" by (simp add: news_titles_def)
  then show "all_titles w symb = google_titles w symb"
    by (cases "google_titles w symb") (simp_all add: all_titles_def)
qed

text \<open>The search adapter is not: when the generator raises, the symbol's evaluation raises.\<close>

lemma search_raises_aborts:
  assumes "news_titles w symb = Inr ns"
    and "search w (symb @ '' stock news'') 5 True = SearchRaises"
  shows "get_headline_sentiment w symb = Inl ExternalError"
    and "analyze w symb = Inl ExternalError"
proof -
  from assms show a: "get_headline_sentiment w symb = Inl ExternalError"
    by (simp add: get_headline_sentiment_def all_titles_def google_titles_raises)
  then show "analyze w symb = Inl ExternalError" by (simp add: analyze_def)
qed

text \<open>
  C1, at the failing input. The news adapter returns one headline for the symbol and
  the search generator raises. The specification has the symbol evaluated on
  the news headline; the code has no handler around the search call, so the exception leaves
  \<^verbatim>\<open>get_headline_sentiment\<close>, the loop's handler takes it and the symbol yields no
  record.
\<close>

theorem search_failure_drops_candidate:
  "news_titles search_down_world ''AAA'' = Inr [PStr ''AAA stock gain continues'']
   \<and> search search_down_world ''AAA stock news'' 5 True = SearchRaises
   \<and> get_headline_sentiment search_down_world ''AAA'' = Inl ExternalError
   \<and> analyze search_down_world ''AAA'' = Inl ExternalError
   \<and> generate_recommendations search_down_world sample_universe 10 = []"
proof -
  have a: "news_titles search_down_world ''AAA'' = Inr [PStr ''AAA stock gain continues'']"
    by code_simp
  have b: "search search_down_world ''AAA stock news'' 5 True = SearchRaises" by code_simp
  have c: "get_headline_sentiment search_down_world ''AAA'' = Inl ExternalError" by code_simp
  have d: "analyze search_down_world ''AAA'' = Inl ExternalError" by code_simp
  have e: "generate_recommendations search_down_world sample_universe 10 = []" by code_simp
  from a b c d e show ?thesis by blast
qed

subsection \<open>Enrichment\<close>

text \<open>
  The four cases of lines 258 to 264: a value that is not a string and a string that
  does not parse fall back to the symbol and "Unknown"; an object is read with those
  defaults; any other JSON value raises.
\<close>

lemma enrichment_not_a_string:
  "\<not> is_str company_info \<Longrightarrow>
     company_name_and_sector w symb company_info = Inr (PStr symb, PStr ''Unknown'')"
  by (cases company_info) (simp_all add: company_name_and_sector_def)

lemma enrichment_unparseable:
  "json_loads w s = None \<Longrightarrow>
     company_name_and_sector w symb (PStr s) = Inr (PStr symb, PStr ''Unknown'')"
  by (simp add: company_name_and_sector_def is_valid_json_def)

lemma enrichment_object:
  "json_loads w s = Some (PDict kvs) \<Longrightarrow>
     company_name_and_sector w symb (PStr s) =
       Inr (case map_of kvs ''Name'' of None \<Rightarrow> PStr symb | Some v \<Rightarrow> v,
            case map_of kvs ''Sector'' of None \<Rightarrow> PStr ''Unknown'' | Some v \<Rightarrow> v)"
  by (simp add: company_name_and_sector_def is_valid_json_def)

lemma enrichment_not_an_object:
  "json_loads w s = Some v \<Longrightarrow> \<not> is_dict v \<Longrightarrow>
     company_name_and_sector w symb (PStr s) = Inl AttributeError"
  by (cases v) (simp_all add: company_name_and_sector_def is_valid_json_def)

text \<open>
  C2, at the failing input. The lookup returns the string \<^verbatim>\<open>[]\<close>, which is valid
  JSON but not an object. The specification has the enrichment fall back to the symbol
  and "Unknown"; the code passes the guard, calls \<^verbatim>\<open>company_data.get\<close> on a list and
  raises, and the symbol yields no record.
\<close>

theorem array_document_raises:
  "get_company_info array_profile_world ''AAA'' = LookupReturns (PStr ''[]'')
   \<and> json_loads array_profile_world ''[]'' = Some (PList [])
   \<and> company_name_and_sector array_profile_world ''AAA'' (PStr ''[]'') = Inl AttributeError
   \<and> analyze array_profile_world ''AAA'' = Inl AttributeError
   \<and> generate_recommendations array_profile_world sample_universe 10 = []"
proof -
  have a: "get_company_info array_profile_world ''AAA'' = LookupReturns (PStr ''[]'')"
    by code_simp
  have b: "json_loads array_profile_world ''[]'' = Some (PList [])" by code_simp
  have c: "company_name_and_sector array_profile_world ''AAA'' (PStr ''[]'') = Inl AttributeError"
    by code_simp
  have d: "analyze array_profile_world ''AAA'' = Inl AttributeError" by code_simp
  have e: "generate_recommendations array_profile_world sample_universe 10 = []" by code_simp
  from a b c d e show ?thesis by blast
qed

end
